theory Spec2Isabelle
  imports Complex_Main
begin

section \<open>JavaScript numbers\<close>

text \<open>
  Every quantity of \<^verbatim>\<open>scene_builder.ts\<close> is a JavaScript \<^verbatim>\<open>number\<close>. A number is
  modelled as a real, or one of the three special values of IEEE 754 that JavaScript
  arithmetic produces instead of raising: \<open>PInf\<close> (\<^verbatim>\<open>Infinity\<close>), \<open>NInf\<close>
  (\<^verbatim>\<open>-Infinity\<close>) and \<open>NaN\<close>. Division by zero is therefore a branch of the model
  and not HOL's \<open>x / 0 = 0\<close>.

  The operations below are exact on finite operands; the two zeros of IEEE 754 are
  one value, read as \<open>+0\<close>. Rounding to the 53 bits of a double is a function of its
  own (\<open>binary64\<close>, next section), applied after every operation in
  \<open>compressSize_f64\<close>: the program is modelled in exact arithmetic throughout, and
  \<^verbatim>\<open>compressSize\<close> a second time with rounding, for the properties that ask for
  exact equality of its result or compare two of its results.
\<close>

datatype jsnum = Fin real | PInf | NInf | NaN

fun is_finite :: "jsnum \<Rightarrow> bool" where
  "is_finite (Fin a) = True"
| "is_finite PInf = False"
| "is_finite NInf = False"
| "is_finite NaN = False"

instantiation jsnum :: "{uminus, plus, minus, times, inverse}"
begin

fun uminus_jsnum :: "jsnum \<Rightarrow> jsnum" where
  "uminus_jsnum (Fin a) = Fin (- a)"
| "uminus_jsnum PInf = NInf"
| "uminus_jsnum NInf = PInf"
| "uminus_jsnum NaN = NaN"

fun plus_jsnum :: "jsnum \<Rightarrow> jsnum \<Rightarrow> jsnum" where
  "plus_jsnum NaN b = NaN"
| "plus_jsnum a NaN = NaN"
| "plus_jsnum (Fin a) (Fin b) = Fin (a + b)"
| "plus_jsnum (Fin a) PInf = PInf"
| "plus_jsnum (Fin a) NInf = NInf"
| "plus_jsnum PInf (Fin b) = PInf"
| "plus_jsnum NInf (Fin b) = NInf"
| "plus_jsnum PInf PInf = PInf"
| "plus_jsnum NInf NInf = NInf"
| "plus_jsnum PInf NInf = NaN"
| "plus_jsnum NInf PInf = NaN"

definition minus_jsnum :: "jsnum \<Rightarrow> jsnum \<Rightarrow> jsnum" where
  "minus_jsnum a b = a + (- b)"

fun times_jsnum :: "jsnum \<Rightarrow> jsnum \<Rightarrow> jsnum" where
  "times_jsnum NaN b = NaN"
| "times_jsnum a NaN = NaN"
| "times_jsnum (Fin a) (Fin b) = Fin (a * b)"
| "times_jsnum (Fin a) PInf = (if a = 0 then NaN else if 0 < a then PInf else NInf)"
| "times_jsnum (Fin a) NInf = (if a = 0 then NaN else if 0 < a then NInf else PInf)"
| "times_jsnum PInf (Fin b) = (if b = 0 then NaN else if 0 < b then PInf else NInf)"
| "times_jsnum NInf (Fin b) = (if b = 0 then NaN else if 0 < b then NInf else PInf)"
| "times_jsnum PInf PInf = PInf"
| "times_jsnum NInf NInf = PInf"
| "times_jsnum PInf NInf = NInf"
| "times_jsnum NInf PInf = NInf"

fun divide_jsnum :: "jsnum \<Rightarrow> jsnum \<Rightarrow> jsnum" where
  "divide_jsnum NaN b = NaN"
| "divide_jsnum a NaN = NaN"
| "divide_jsnum (Fin a) (Fin b) =
     (if b = 0 then (if a = 0 then NaN else if 0 < a then PInf else NInf)
      else Fin (a / b))"
| "divide_jsnum (Fin a) PInf = Fin 0"
| "divide_jsnum (Fin a) NInf = Fin 0"
| "divide_jsnum PInf (Fin b) = (if 0 \<le> b then PInf else NInf)"
| "divide_jsnum NInf (Fin b) = (if 0 \<le> b then NInf else PInf)"
| "divide_jsnum PInf PInf = NaN"
| "divide_jsnum NInf NInf = NaN"
| "divide_jsnum PInf NInf = NaN"
| "divide_jsnum NInf PInf = NaN"

definition inverse_jsnum :: "jsnum \<Rightarrow> jsnum" where
  "inverse_jsnum a = divide (Fin 1) a"

instance ..

end

text \<open>The comparison \<^verbatim>\<open><=\<close> of JavaScript: false as soon as one side is \<^verbatim>\<open>NaN\<close>.\<close>

fun jle :: "jsnum \<Rightarrow> jsnum \<Rightarrow> bool" where
  "jle NaN b = False"
| "jle a NaN = False"
| "jle (Fin a) (Fin b) = (a \<le> b)"
| "jle NInf b = True"
| "jle a PInf = True"
| "jle PInf b = False"
| "jle a NInf = False"

text \<open>
  \<^verbatim>\<open>Math.PI\<close>, \<^verbatim>\<open>Math.cos\<close>, \<^verbatim>\<open>Math.sin\<close> and \<^verbatim>\<open>Math.pow\<close>. The cases of
  \<open>Math_pow\<close> are those of ECMAScript's \<^verbatim>\<open>Number::exponentiate\<close>, in its order: a
  \<^verbatim>\<open>NaN\<close> exponent, a zero exponent, a \<^verbatim>\<open>NaN\<close> base, an infinite base, a zero
  base, an infinite exponent, a negative base with a fractional exponent, and the
  power itself.
\<close>

definition Math_PI :: jsnum where
  "Math_PI = Fin pi"

fun Math_cos :: "jsnum \<Rightarrow> jsnum" where
  "Math_cos (Fin a) = Fin (cos a)"
| "Math_cos a = NaN"

fun Math_sin :: "jsnum \<Rightarrow> jsnum" where
  "Math_sin (Fin a) = Fin (sin a)"
| "Math_sin a = NaN"

definition odd_integer :: "real \<Rightarrow> bool" where
  "odd_integer e = (e = of_int \<lfloor>e\<rfloor> \<and> odd \<lfloor>e\<rfloor>)"

fun Math_pow :: "jsnum \<Rightarrow> jsnum \<Rightarrow> jsnum" where
  "Math_pow b NaN = NaN"
| "Math_pow b (Fin e) =
     (if e = 0 then Fin 1
      else case b of
        NaN \<Rightarrow> NaN
      | PInf \<Rightarrow> (if 0 < e then PInf else Fin 0)
      | NInf \<Rightarrow> (if 0 < e then (if odd_integer e then NInf else PInf) else Fin 0)
      | Fin a \<Rightarrow>
          (if a = 0 then (if 0 < e then Fin 0 else PInf)
           else if 0 < a then Fin (a powr e)
           else if e = of_int \<lfloor>e\<rfloor> then Fin (a powi \<lfloor>e\<rfloor>)
           else NaN))"
| "Math_pow b PInf =
     (case b of
        NaN \<Rightarrow> NaN
      | PInf \<Rightarrow> PInf
      | NInf \<Rightarrow> PInf
      | Fin a \<Rightarrow> (if 1 < \<bar>a\<bar> then PInf else if \<bar>a\<bar> = 1 then NaN else Fin 0))"
| "Math_pow b NInf =
     (case b of
        NaN \<Rightarrow> NaN
      | PInf \<Rightarrow> Fin 0
      | NInf \<Rightarrow> Fin 0
      | Fin a \<Rightarrow> (if 1 < \<bar>a\<bar> then Fin 0 else if \<bar>a\<bar> = 1 then NaN else PInf))"

section \<open>Rounding to binary64\<close>

text \<open>
  IEEE 754 rounding to the nearest double, ties to even, as a function on the reals.
  \<open>binade x\<close> is the exponent \<open>e\<close> with \<^verbatim>\<open>2^e <= |x| < 2^(e+1)\<close>. The doubles of that
  binade are the multiples of 2 to the power \<open>quantum x\<close>, which is \<open>e - 52\<close> in the
  normal range and \<open>-1074\<close> below it. \<open>nearest x\<close> is the multiple nearest to \<open>x\<close>,
  the one with the even significand when two are equally near. A result of
  magnitude \<^verbatim>\<open>2^1024\<close> or more overflows to an infinity.
\<close>

definition binade :: "real \<Rightarrow> int" where
  "binade x = \<lfloor>log 2 \<bar>x\<bar>\<rfloor>"

definition ties_even :: "real \<Rightarrow> int" where
  "ties_even x =
     (let n = \<lfloor>x\<rfloor>; f = x - of_int n
      in if f < 1 / 2 then n else if 1 / 2 < f then n + 1 else if even n then n else n + 1)"

definition quantum :: "real \<Rightarrow> int" where
  "quantum x = max (binade x) (- 1022) - 52"

definition nearest :: "real \<Rightarrow> real" where
  "nearest x = of_int (ties_even (x / 2 powi quantum x)) * 2 powi quantum x"

definition overflow_threshold :: real where
  "overflow_threshold = 2 ^ 1024"

definition binary64 :: "real \<Rightarrow> jsnum" where
  "binary64 x =
     (if x = 0 then Fin 0
      else if overflow_threshold \<le> \<bar>nearest x\<bar> then (if 0 < x then PInf else NInf)
      else Fin (nearest x))"

fun rnd :: "jsnum \<Rightarrow> jsnum" where
  "rnd (Fin x) = binary64 x"
| "rnd a = a"

text \<open>
  \<^verbatim>\<open>Math.pow\<close> is code of the runtime, and ECMAScript leaves its precision to the
  implementation. \<^verbatim>\<open>Math_pow_f64\<close> is the correctly rounded power: the double nearest to
  the exact power. For the exponents 0 and 1 that is what every implementation returns,
  one and the base itself. For other exponents it is an idealisation: it is monotone in
  the base, and the power of a runtime need be neither correctly rounded nor monotone.
\<close>

definition Math_pow_f64 :: "jsnum \<Rightarrow> jsnum \<Rightarrow> jsnum" where
  "Math_pow_f64 b e = rnd (Math_pow b e)"


section \<open>The scene: constants, bodies and meshes\<close>

text \<open>
  A value read from the fetched JSON may be missing: \<^verbatim>\<open>formatPlanetData\<close> guards
  \<^verbatim>\<open>data.sideralRotation\<close> with a truthiness test before printing it, so the
  rotation period of a body is a number, \<^verbatim>\<open>null\<close> or \<^verbatim>\<open>undefined\<close>. The other
  numeric fields are numbers (\<^verbatim>\<open>toFixed\<close> is called on them unguarded, which throws
  before any mesh exists when one is missing). \<open>ToNumber\<close> is the conversion the
  operator \<^verbatim>\<open>*\<close> applies to its operands.
\<close>

datatype jsval = Undefined | Null | Number jsnum

fun ToNumber :: "jsval \<Rightarrow> jsnum" where
  "ToNumber Undefined = NaN"
| "ToNumber Null = Fin 0"
| "ToNumber (Number n) = n"

definition SUN_RADIUS :: jsnum where
  "SUN_RADIUS = Fin 696340"

definition PLANET_SCALE :: jsnum where
  "PLANET_SCALE = Fin 4"

definition DISTANCE_SCALE :: jsnum where
  "DISTANCE_SCALE = Fin 10"

text \<open>
  The object \<^verbatim>\<open>formatPlanetData\<close> and \<^verbatim>\<open>getSunData\<close> return, without its texts.
\<close>

record planet =
  name :: string
  distance :: jsnum
  radius :: jsnum
  orbitalPeriod :: jsnum
  rotationPeriod :: jsval

text \<open>
  A mesh: its \<^verbatim>\<open>userData\<close> (the planet's fields, \<open>distance\<close> overwritten, and the
  two angles), the radius of its sphere geometry, and the parts of its transform
  that the program writes.
\<close>

record mesh = planet +
  orbitAngle :: jsnum
  rotationAngle :: jsnum
  geometry_radius :: jsnum
  position_x :: jsnum
  position_y :: jsnum
  position_z :: jsnum
  rotation_y :: jsnum
  scale_x :: jsnum
  scale_y :: jsnum
  scale_z :: jsnum

text \<open>
  The module-level variables: \<open>orbitalSpeed\<close> holds the number that \<^verbatim>\<open>*\<close> reads
  from the variable (the slider stores a numeric string), \<open>lastTime\<close> the
  milliseconds \<^verbatim>\<open>Date.now()\<close> returned.
\<close>

record sim =
  compressionAmount :: jsnum
  planetMeshes :: "mesh list"
  orbitalSpeed :: jsnum
  lastTime :: int

definition getSunData :: planet where
  "getSunData =
     \<lparr>name = ''sun'', distance = Fin 0, radius = SUN_RADIUS, orbitalPeriod = Fin 0,
      rotationPeriod = Number (Fin (2538 / 100))\<rparr>"

text \<open>\<^verbatim>\<open>compressSize\<close> reads the global \<^verbatim>\<open>compressionAmount\<close>: here its first argument.\<close>

definition compressSize :: "jsnum \<Rightarrow> jsnum \<Rightarrow> jsnum" where
  "compressSize k input =
     Math_pow input (Fin 1 / k) + SUN_RADIUS - Math_pow SUN_RADIUS (Fin 1 / k)"

text \<open>
  The same expression with each of its five operations rounded to a double, in the
  order JavaScript evaluates them: the division, the two powers, the sum and the
  difference. The two powers are the correctly rounded ones.
\<close>

definition compressSize_f64 :: "jsnum \<Rightarrow> jsnum \<Rightarrow> jsnum" where
  "compressSize_f64 k input =
     rnd (rnd (Math_pow_f64 input (rnd (Fin 1 / k)) + SUN_RADIUS)
            - Math_pow_f64 SUN_RADIUS (rnd (Fin 1 / k)))"

text \<open>
  The division, the sum and the difference are IEEE operations, the same on every
  runtime; the power is not. \<^verbatim>\<open>compressSize_with\<close> is the expression in double
  arithmetic with the \<^verbatim>\<open>Math.pow\<close> of the runtime as its first argument;
  \<^verbatim>\<open>compressSize_f64\<close> is \<^verbatim>\<open>compressSize_with Math_pow_f64\<close>.
\<close>

definition compressSize_with ::
  "(jsnum \<Rightarrow> jsnum \<Rightarrow> jsnum) \<Rightarrow> jsnum \<Rightarrow> jsnum \<Rightarrow> jsnum" where
  "compressSize_with pow k input =
     rnd (rnd (pow input (rnd (Fin 1 / k)) + SUN_RADIUS) - pow SUN_RADIUS (rnd (Fin 1 / k)))"

definition adjustedDistance :: "planet \<Rightarrow> jsnum" where
  "adjustedDistance p = (distance p / Fin 1000 + SUN_RADIUS) * DISTANCE_SCALE"

definition planetRadius :: "planet \<Rightarrow> jsnum" where
  "planetRadius p = radius p * Fin (1 / 2) * PLANET_SCALE"

text \<open>
  \<^verbatim>\<open>createPlanet\<close>: the mesh it builds and pushes. A new mesh stands at the origin,
  unrotated, at scale 1; the function then sets \<^verbatim>\<open>position.x\<close>.
\<close>

definition createPlanet :: "jsnum \<Rightarrow> planet \<Rightarrow> mesh" where
  "createPlanet k p =
     \<lparr>name = name p, distance = adjustedDistance p, radius = radius p,
      orbitalPeriod = orbitalPeriod p, rotationPeriod = rotationPeriod p,
      orbitAngle = Fin 0, rotationAngle = Fin 0,
      geometry_radius = compressSize k (planetRadius p),
      position_x = adjustedDistance p, position_y = Fin 0, position_z = Fin 0,
      rotation_y = Fin 0, scale_x = Fin 1, scale_y = Fin 1, scale_z = Fin 1\<rparr>"

definition createSolarSystem :: "planet list \<Rightarrow> sim \<Rightarrow> sim" where
  "createSolarSystem planets s =
     s\<lparr>planetMeshes := planetMeshes s @ map (createPlanet (compressionAmount s)) planets\<rparr>"

section \<open>The animation loop\<close>

text \<open>
  The body of the \<^verbatim>\<open>forEach\<close> of \<^verbatim>\<open>updatePlanetPositions\<close>, statement by
  statement: the periods and the distance are read first, the orbit angle and the
  position are written, then the rotation, and last the test for a period of zero.
\<close>

definition updatePlanet :: "jsnum \<Rightarrow> mesh \<Rightarrow> mesh" where
  "updatePlanet timeFactor m =
     (let P = orbitalPeriod m; Q = rotationPeriod m; d = distance m;
          m1 = m\<lparr>orbitAngle := orbitAngle m + (Fin 2 * Math_PI) / (P * Fin 60) * timeFactor\<rparr>;
          m2 = m1\<lparr>position_x := Math_cos (orbitAngle m1) * d\<rparr>;
          m3 = m2\<lparr>position_z := Math_sin (orbitAngle m2) * d\<rparr>;
          m4 = m3\<lparr>rotationAngle :=
                 rotationAngle m3 + (Fin 2 * Math_PI) / (ToNumber Q * Fin 60) * timeFactor\<rparr>;
          m5 = m4\<lparr>rotation_y := rotationAngle m4\<rparr>
      in if P = Fin 0
         then m5\<lparr>position_x := Fin 0, position_y := Fin 0, position_z := Fin 0\<rparr>
         else m5)"

definition updatePlanetPositions :: "jsnum \<Rightarrow> sim \<Rightarrow> sim" where
  "updatePlanetPositions timeFactor s =
     s\<lparr>planetMeshes := map (updatePlanet timeFactor) (planetMeshes s)\<rparr>"

text \<open>
  One call of \<^verbatim>\<open>animate\<close>, with the value of \<^verbatim>\<open>Date.now()\<close> as \<open>now\<close>. The
  camera, the renderer and the clock display read the state and write none of the
  fields modelled here.
\<close>

definition deltaTime :: "int \<Rightarrow> sim \<Rightarrow> jsnum" where
  "deltaTime now s = Fin (of_int (now - lastTime s)) / Fin 1000"

definition timeFactor :: "int \<Rightarrow> sim \<Rightarrow> jsnum" where
  "timeFactor now s = deltaTime now s * orbitalSpeed s"

definition animate :: "int \<Rightarrow> sim \<Rightarrow> sim" where
  "animate now s = updatePlanetPositions (timeFactor now s) (s\<lparr>lastTime := now\<rparr>)"

text \<open>Several frames in a row, each with its own \<open>timeFactor\<close>.\<close>

fun frames :: "jsnum list \<Rightarrow> mesh \<Rightarrow> mesh" where
  "frames [] m = m"
| "frames (t # ts) m = frames ts (updatePlanet t m)"

section \<open>The compression slider\<close>

text \<open>
  \<^verbatim>\<open>updateCompressionAmount\<close>, with the number \<^verbatim>\<open>parseFloat\<close> returned for the
  slider's text as \<open>v\<close>. The label it writes is not part of the state.
\<close>

definition rescale :: "jsnum \<Rightarrow> mesh \<Rightarrow> mesh" where
  "rescale k m =
     (let newScale = compressSize k (radius m) / radius m
      in m\<lparr>scale_x := newScale, scale_y := newScale, scale_z := newScale\<rparr>)"

definition updateCompressionAmount :: "jsnum \<Rightarrow> sim \<Rightarrow> sim" where
  "updateCompressionAmount v s =
     (let s1 = s\<lparr>compressionAmount := v\<rparr>
      in s1\<lparr>planetMeshes := map (rescale (compressionAmount s1)) (planetMeshes s1)\<rparr>)"

section \<open>Facts about the arithmetic and the frame update\<close>

lemma two_pi: "Fin 2 * Math_PI = Fin (2 * pi)"
  by (simp add: Math_PI_def)

lemma two_pi_over_zero: "(Fin 2 * Math_PI) / Fin 0 = PInf"
  by (simp add: Math_PI_def)

lemma PInf_times_not_finite: "\<not> is_finite (PInf * t)"
  by (cases t) auto

lemma plus_not_finite: "\<not> is_finite b \<Longrightarrow> \<not> is_finite (a + b)"
  by (cases a; cases b) auto

lemma plus_Fin_0: "a + Fin 0 = a"
  by (cases a) simp_all

lemma zero_increment:
  "P \<noteq> Fin 0 \<Longrightarrow> P \<noteq> NaN \<Longrightarrow> (Fin 2 * Math_PI) / (P * Fin 60) * Fin 0 = Fin 0"
  by (cases P) (simp_all add: two_pi)

lemma updatePlanet_userData:
  "orbitalPeriod (updatePlanet t m) = orbitalPeriod m"
  "rotationPeriod (updatePlanet t m) = rotationPeriod m"
  "distance (updatePlanet t m) = distance m"
  by (simp_all add: updatePlanet_def Let_def)

lemma updatePlanet_orbitAngle:
  "orbitAngle (updatePlanet t m) =
     orbitAngle m + (Fin 2 * Math_PI) / (orbitalPeriod m * Fin 60) * t"
  by (simp add: updatePlanet_def Let_def)

lemma updatePlanet_rotationAngle:
  "rotationAngle (updatePlanet t m) =
     rotationAngle m + (Fin 2 * Math_PI) / (ToNumber (rotationPeriod m) * Fin 60) * t"
  by (simp add: updatePlanet_def Let_def)

lemma updatePlanet_position:
  "orbitalPeriod m \<noteq> Fin 0 \<Longrightarrow>
     position_x (updatePlanet t m) = Math_cos (orbitAngle (updatePlanet t m)) * distance m \<and>
     position_y (updatePlanet t m) = position_y m \<and>
     position_z (updatePlanet t m) = Math_sin (orbitAngle (updatePlanet t m)) * distance m"
  by (simp add: updatePlanet_def Let_def)

lemma frames_userData:
  "orbitalPeriod (frames ts m) = orbitalPeriod m \<and> distance (frames ts m) = distance m"
  by (induction ts arbitrary: m) (simp_all add: updatePlanet_userData)

text \<open>
  Over frames with finite time factors, the orbit angle of a body with a finite
  nonzero period grows by the angular velocity times the sum of the time factors.
\<close>

lemma frames_orbitAngle:
  "orbitalPeriod m = Fin P \<Longrightarrow> P \<noteq> 0 \<Longrightarrow> orbitAngle m = Fin a \<Longrightarrow>
     orbitAngle (frames (map Fin ts) m) = Fin (a + 2 * pi / (P * 60) * sum_list ts)"
proof (induction ts arbitrary: m a)
  case Nil
  then show ?case by simp
next
  case (Cons t ts)
  have "orbitAngle (updatePlanet (Fin t) m) = Fin (a + 2 * pi / (P * 60) * t)"
    using Cons.prems by (simp add: updatePlanet_orbitAngle two_pi)
  moreover have "orbitalPeriod (updatePlanet (Fin t) m) = Fin P"
    using Cons.prems by (simp add: updatePlanet_userData)
  ultimately show ?case
    using Cons.IH [of "updatePlanet (Fin t) m" "a + 2 * pi / (P * 60) * t"] Cons.prems(2)
    by (simp add: distrib_left add.assoc)
qed

lemma frames_position:
  "orbitalPeriod m \<noteq> Fin 0 \<Longrightarrow> ts \<noteq> [] \<Longrightarrow>
     position_x (frames ts m) = Math_cos (orbitAngle (frames ts m)) * distance m \<and>
     position_y (frames ts m) = position_y m \<and>
     position_z (frames ts m) = Math_sin (orbitAngle (frames ts m)) * distance m"
proof (induction ts arbitrary: m)
  case Nil
  then show ?case by simp
next
  case (Cons t ts)
  show ?case
  proof (cases "ts = []")
    case True
    then show ?thesis using Cons.prems by (simp add: updatePlanet_position)
  next
    case False
    then show ?thesis
      using Cons.IH [of "updatePlanet t m"] Cons.prems
      by (simp add: updatePlanet_userData updatePlanet_position)
  qed
qed

lemma sqrt_bound: "0 \<le> v \<Longrightarrow> v < b * b \<Longrightarrow> 0 \<le> b \<Longrightarrow> v powr (1 / 2) < (b::real)"
  by (simp add: powr_half_sqrt real_less_lsqrt power2_eq_square)

section \<open>Facts about rounding\<close>

subsection \<open>Rounding to the nearest integer\<close>

lemma ties_even_int: "ties_even (of_int n) = n"
  by (simp add: ties_even_def)

lemma ties_even_bounds: "\<lfloor>u\<rfloor> \<le> ties_even u \<and> ties_even u \<le> \<lfloor>u\<rfloor> + 1"
  by (simp add: ties_even_def Let_def)

lemma ties_even_mono:
  assumes "u \<le> v"
  shows "ties_even u \<le> ties_even v"
proof (cases "\<lfloor>u\<rfloor> < \<lfloor>v\<rfloor>")
  case True
  then show ?thesis
    using ties_even_bounds [of u] ties_even_bounds [of v] by linarith
next
  case False
  with assms have eq: "\<lfloor>u\<rfloor> = \<lfloor>v\<rfloor>"
    using floor_mono [of u v] by linarith
  with assms show ?thesis
    by (auto simp add: ties_even_def Let_def)
qed

lemma ties_even_half: "\<bar>of_int (ties_even u) - u\<bar> \<le> 1 / 2"
proof -
  have "of_int \<lfloor>u\<rfloor> \<le> u" "u < of_int \<lfloor>u\<rfloor> + 1" by linarith+
  then show ?thesis
    by (auto simp add: ties_even_def Let_def)
qed

lemma ties_even_near:
  assumes "\<bar>u - of_int n\<bar> < 1 / 2"
  shows "ties_even u = n"
proof (cases "of_int n \<le> u")
  case True
  with assms have "\<lfloor>u\<rfloor> = n" by (intro floor_unique) linarith+
  with assms True show ?thesis by (auto simp add: ties_even_def Let_def)
next
  case False
  with assms have "\<lfloor>u\<rfloor> = n - 1" by (intro floor_unique) (simp, linarith)+
  with assms False show ?thesis by (auto simp add: ties_even_def Let_def)
qed

lemma ties_even_uminus: "ties_even (- u) = - ties_even u"
proof (cases "u = of_int \<lfloor>u\<rfloor>")
  case True
  then have "ties_even u = \<lfloor>u\<rfloor>" using ties_even_int [of "\<lfloor>u\<rfloor>"] by simp
  moreover have "ties_even (- u) = - \<lfloor>u\<rfloor>"
    using True ties_even_int [of "- \<lfloor>u\<rfloor>"] by (metis of_int_minus)
  ultimately show ?thesis by simp
next
  case False
  have lo: "of_int \<lfloor>u\<rfloor> < u" using False of_int_floor_le [of u] by linarith
  have hi: "u < of_int \<lfloor>u\<rfloor> + 1" by linarith
  have "- real_of_int \<lfloor>u\<rfloor> - 1 \<le> - u" using hi by linarith
  moreover have "- u < (- real_of_int \<lfloor>u\<rfloor> - 1) + 1" using lo by linarith
  ultimately have fl: "\<lfloor>- u\<rfloor> = - \<lfloor>u\<rfloor> - 1"
    by (intro floor_unique) simp_all
  show ?thesis
    using lo hi by (auto simp add: ties_even_def Let_def fl)
qed

subsection \<open>The nearest double is monotone\<close>

lemma binade_eq:
  assumes "2 powi e \<le> \<bar>x\<bar>" and "\<bar>x\<bar> < 2 powi (e + 1)"
  shows "binade x = e"
proof -
  have "(0::real) < 2 powi e" by simp
  with assms(1) have pos: "0 < \<bar>x\<bar>" by linarith
  have a: "2 powr real_of_int e = (2::real) powi e"
    by (simp add: powr_real_of_int')
  have b: "2 powr real_of_int (e + 1) = (2::real) powi (e + 1)"
    by (rule powr_real_of_int') simp_all
  have "\<lfloor>log 2 \<bar>x\<bar>\<rfloor> = e"
    using floor_log_eq_powr_iff [of "\<bar>x\<bar>" 2 e] pos assms a b by simp
  then show ?thesis by (simp add: binade_def)
qed

lemma binade_bounds:
  assumes "x \<noteq> 0"
  shows "2 powi binade x \<le> \<bar>x\<bar> \<and> \<bar>x\<bar> < 2 powi (binade x + 1)"
proof -
  have pos: "0 < \<bar>x\<bar>" using assms by simp
  have a: "2 powr real_of_int (binade x) = (2::real) powi binade x"
    by (simp add: powr_real_of_int')
  have b: "2 powr real_of_int (binade x + 1) = (2::real) powi (binade x + 1)"
    by (rule powr_real_of_int') simp_all
  have "\<lfloor>log 2 \<bar>x\<bar>\<rfloor> = binade x" by (simp add: binade_def)
  then show ?thesis
    using floor_log_eq_powr_iff [of "\<bar>x\<bar>" 2 "binade x"] pos a b by simp
qed

lemma binade_uminus: "binade (- x) = binade x"
  by (simp add: binade_def)

lemma binade_mono:
  assumes "0 < x" and "x \<le> y"
  shows "binade x \<le> binade y"
proof -
  have "log 2 x \<le> log 2 y" using assms by (intro log_mono) simp_all
  then show ?thesis using assms by (simp add: binade_def floor_mono)
qed

lemma quantum_uminus: "quantum (- x) = quantum x"
  by (simp add: quantum_def binade_uminus)

lemma nearest_uminus: "nearest (- x) = - nearest x"
  by (simp add: nearest_def quantum_uminus ties_even_uminus)

lemma nearest_nonneg:
  assumes "0 \<le> x"
  shows "0 \<le> nearest x"
proof -
  have "0 \<le> x / 2 powi quantum x" using assms by simp
  from ties_even_mono [OF this] have "0 \<le> ties_even (x / 2 powi quantum x)"
    using ties_even_int [of 0] by simp
  then show ?thesis by (simp add: nearest_def)
qed

text \<open>The scaled significand of a positive number lies below \<open>2 ^ 53\<close>, and at or
  above \<open>2 ^ 52\<close> in the normal range.\<close>

lemma scaled_upper:
  assumes "0 < x"
  shows "x / 2 powi quantum x \<le> 2 ^ 53"
proof -
  have "x < 2 powi (binade x + 1)" using binade_bounds [of x] assms by simp
  also have "\<dots> \<le> 2 powi (max (binade x) (- 1022) + 1)"
    by (intro power_int_increasing) simp_all
  also have "\<dots> = 2 ^ 53 * 2 powi quantum x"
    by (simp add: quantum_def power_int_diff power_int_add)
  finally have "x < 2 ^ 53 * 2 powi quantum x" .
  then show ?thesis by (simp add: pos_divide_le_eq)
qed

lemma scaled_lower:
  assumes "0 < x" and "- 1022 \<le> binade x"
  shows "2 ^ 52 \<le> x / 2 powi quantum x"
proof -
  have q: "quantum x = binade x - 52" using assms(2) by (simp add: quantum_def)
  have "2 ^ 52 * 2 powi quantum x = (2::real) powi binade x"
    by (simp add: q power_int_diff)
  also have "\<dots> \<le> x" using binade_bounds [of x] assms by simp
  finally show ?thesis by (simp add: pos_le_divide_eq)
qed

lemma nearest_upper:
  assumes "0 < x"
  shows "nearest x \<le> 2 powi (max (binade x) (- 1022) + 1)"
proof -
  have "ties_even (x / 2 powi quantum x) \<le> 2 ^ 53"
    using ties_even_mono [OF scaled_upper [OF assms]] ties_even_int [of "2 ^ 53"] by simp
  then have "real_of_int (ties_even (x / 2 powi quantum x)) \<le> 2 ^ 53"
    by (metis of_int_le_iff of_int_numeral of_int_power)
  then have "nearest x \<le> 2 ^ 53 * 2 powi quantum x"
    by (simp add: nearest_def)
  also have "\<dots> = 2 powi (max (binade x) (- 1022) + 1)"
    by (simp add: quantum_def power_int_diff power_int_add)
  finally show ?thesis .
qed

lemma nearest_lower:
  assumes "0 < x" and "- 1022 \<le> binade x"
  shows "2 powi binade x \<le> nearest x"
proof -
  have q: "quantum x = binade x - 52" using assms(2) by (simp add: quantum_def)
  have "2 ^ 52 \<le> ties_even (x / 2 powi quantum x)"
    using ties_even_mono [OF scaled_lower [OF assms]] ties_even_int [of "2 ^ 52"] by simp
  then have "2 ^ 52 \<le> real_of_int (ties_even (x / 2 powi quantum x))"
    by (metis of_int_le_iff of_int_numeral of_int_power)
  then have "2 ^ 52 * 2 powi quantum x \<le> nearest x"
    by (simp add: nearest_def)
  moreover have "2 ^ 52 * 2 powi quantum x = (2::real) powi binade x"
    by (simp add: q power_int_diff)
  ultimately show ?thesis by simp
qed

lemma nearest_mono_pos:
  assumes "0 < x" and "x \<le> y"
  shows "nearest x \<le> nearest y"
proof -
  have y: "0 < y" using assms by linarith
  let ?cx = "max (binade x) (- 1022)" and ?cy = "max (binade y) (- 1022)"
  have le: "?cx \<le> ?cy" using binade_mono [OF assms] by simp
  show ?thesis
  proof (cases "?cx = ?cy")
    case True
    then have q: "quantum x = quantum y" by (simp add: quantum_def)
    have "x / 2 powi quantum y \<le> y / 2 powi quantum y"
      using assms(2) by (simp add: divide_right_mono)
    from ties_even_mono [OF this] show ?thesis
      by (simp add: nearest_def q)
  next
    case False
    with le have lt: "?cx + 1 \<le> ?cy" by linarith
    then have ybin: "- 1022 \<le> binade y" "?cy = binade y" by linarith+
    have "nearest x \<le> 2 powi (?cx + 1)" by (rule nearest_upper [OF assms(1)])
    also have "\<dots> \<le> 2 powi ?cy" using lt by (intro power_int_increasing) simp_all
    also have "\<dots> \<le> nearest y" using nearest_lower [OF y ybin(1)] ybin(2) by simp
    finally show ?thesis .
  qed
qed

lemma nearest_mono:
  assumes "x \<le> y"
  shows "nearest x \<le> nearest y"
proof -
  consider "0 < x" | "x \<le> 0" "0 \<le> y" | "y < 0" by linarith
  then show ?thesis
  proof cases
    case 1
    then show ?thesis using assms by (rule nearest_mono_pos)
  next
    case 2
    have "0 \<le> nearest (- x)" using 2(1) by (intro nearest_nonneg) simp
    then have "nearest x \<le> 0" by (simp add: nearest_uminus)
    also have "0 \<le> nearest y" using 2(2) by (rule nearest_nonneg)
    finally show ?thesis .
  next
    case 3
    then have "0 < - y" "- y \<le> - x" using assms by simp_all
    from nearest_mono_pos [OF this] show ?thesis by (simp add: nearest_uminus)
  qed
qed

lemma nearest_0: "nearest 0 = 0"
  using ties_even_int [of 0] by (simp add: nearest_def)

lemma binary64_alt:
  "binary64 x =
     (if overflow_threshold \<le> \<bar>nearest x\<bar> then (if 0 < x then PInf else NInf)
      else Fin (nearest x))"
  by (simp add: binary64_def nearest_0 overflow_threshold_def)


lemma binary64_mono:
  assumes "x \<le> y"
  shows "jle (binary64 x) (binary64 y)"
proof -
  have n: "nearest x \<le> nearest y" using assms by (rule nearest_mono)
  have sx: "0 < x \<Longrightarrow> 0 \<le> nearest x" by (intro nearest_nonneg) simp
  have sy: "\<not> 0 < y \<Longrightarrow> nearest y \<le> 0"
    using nearest_nonneg [of "- y"] by (simp add: nearest_uminus)
  show ?thesis
    using n sx sy assms by (auto simp add: binary64_alt)
qed




subsection \<open>Evaluating the rounding\<close>

lemma below_threshold: "\<bar>v\<bar> \<le> 2 ^ 64 \<Longrightarrow> \<bar>v\<bar> < overflow_threshold"
proof -
  have "(2::real) ^ 64 < 2 ^ 1024" by (intro power_strict_increasing) simp_all
  then show "\<bar>v\<bar> \<le> 2 ^ 64 \<Longrightarrow> \<bar>v\<bar> < overflow_threshold"
    unfolding overflow_threshold_def by linarith
qed

lemma quantum_normal:
  assumes "2 powi b \<le> \<bar>x\<bar>" and "\<bar>x\<bar> < 2 powi (b + 1)" and "- 1022 \<le> b"
  shows "quantum x = b - 52"
  using binade_eq [OF assms(1,2)] assms(3) by (simp add: quantum_def)

lemma binary64_normal:
  assumes "2 powi b \<le> \<bar>x\<bar>" and "\<bar>x\<bar> < 2 powi (b + 1)" and "- 1022 \<le> b"
    and "ties_even (x / 2 powi (b - 52)) = n"
    and "\<bar>real_of_int n * 2 powi (b - 52)\<bar> \<le> 2 ^ 64"
  shows "binary64 x = Fin (of_int n * 2 powi (b - 52))"
proof -
  have "nearest x = of_int n * 2 powi (b - 52)"
    using quantum_normal [OF assms(1,2,3)] assms(4) by (simp add: nearest_def)
  then show ?thesis using below_threshold [OF assms(5)] by (simp add: binary64_alt)
qed

lemma binary64_exact:
  assumes "2 powi b \<le> \<bar>x\<bar>" and "\<bar>x\<bar> < 2 powi (b + 1)" and "- 1022 \<le> b"
    and "x / 2 powi (b - 52) = of_int n"
    and "\<bar>x\<bar> \<le> 2 ^ 64"
  shows "binary64 x = Fin x"
proof -
  have x: "of_int n * 2 powi (b - 52) = x"
    using assms(4) [symmetric] by simp
  have "ties_even (x / 2 powi (b - 52)) = n"
    using assms(4) ties_even_int [of n] by simp
  from binary64_normal [OF assms(1,2,3) this] x assms(5) show ?thesis by simp
qed

lemma nearest_error:
  assumes "2 powi b \<le> \<bar>x\<bar>" and "\<bar>x\<bar> < 2 powi (b + 1)" and "- 1022 \<le> b"
  shows "\<bar>nearest x - x\<bar> \<le> 2 powi (b - 53)"
proof -
  let ?q = "(2::real) powi (b - 52)"
  have q: "quantum x = b - 52" by (rule quantum_normal [OF assms])
  have pos: "0 < ?q" by simp
  have "nearest x - x = (of_int (ties_even (x / ?q)) - x / ?q) * ?q"
    using pos by (simp add: nearest_def q algebra_simps)
  then have "\<bar>nearest x - x\<bar> = \<bar>of_int (ties_even (x / ?q)) - x / ?q\<bar> * ?q"
    using pos by (simp add: abs_mult)
  also have "\<dots> \<le> 1 / 2 * ?q"
    using ties_even_half [of "x / ?q"] pos by (intro mult_right_mono) simp_all
  also have "\<dots> = 2 powi (b - 53)"
    by (simp add: power_int_diff)
  finally show ?thesis .
qed

lemma binary64_1: "binary64 1 = Fin 1"
  by (rule binary64_exact [of 0 _ "2 ^ 52"]) (simp_all add: power_int_minus)

lemma binary64_R: "binary64 696340 = Fin 696340"
  by (rule binary64_exact [of 19 _ 5981515053793280])
     (simp_all add: power_int_minus)

lemma binary64_0: "binary64 0 = Fin 0"
  by (simp add: binary64_def)

text \<open>
  Four known values: the double of \<open>0.1\<close>, the two ties above 1 (to the even
  significand, down and up), and overflow.
\<close>

lemma binary64_tenth: "binary64 (1 / 10) = Fin (3602879701896397 / 2 ^ 55)"
proof -
  have "ties_even (1 / 10 / 2 powi (- 4 - 52)) = 7205759403792794"
    by (rule ties_even_near) (simp add: power_int_minus)
  from binary64_normal [OF _ _ _ this] show ?thesis
    by (simp add: power_int_minus)
qed

lemma binary64_tie_down: "binary64 (1 + 1 / 2 ^ 53) = Fin 1"
proof -
  have "ties_even ((1 + 1 / 2 ^ 53) / 2 powi (0 - 52)) = 4503599627370496"
    by (simp add: ties_even_def Let_def power_int_minus)
  from binary64_normal [OF _ _ _ this] show ?thesis
    by (simp add: power_int_minus)
qed

lemma binary64_tie_up: "binary64 (1 + 3 / 2 ^ 53) = Fin (1 + 1 / 2 ^ 51)"
proof -
  have "ties_even ((1 + 3 / 2 ^ 53) / 2 powi (0 - 52)) = 4503599627370498"
    by (simp add: ties_even_def Let_def power_int_minus)
  from binary64_normal [OF _ _ _ this] show ?thesis
    by (simp add: power_int_minus)
qed

lemma binary64_overflow:
  assumes "overflow_threshold \<le> x"
  shows "binary64 x = PInf"
proof -
  have pos: "0 < overflow_threshold" by (simp add: overflow_threshold_def)
  have b: "binade overflow_threshold = 1024"
    unfolding overflow_threshold_def by (rule binade_eq) (simp_all add: power_int_add)
  have "2 powi binade overflow_threshold \<le> nearest overflow_threshold"
    using pos by (rule nearest_lower) (simp add: b)
  then have "overflow_threshold \<le> nearest overflow_threshold"
    unfolding b by (simp add: overflow_threshold_def)
  also have "\<dots> \<le> nearest x" using assms by (rule nearest_mono)
  finally have "overflow_threshold \<le> \<bar>nearest x\<bar>" by linarith
  then show ?thesis using pos assms by (simp add: binary64_alt)
qed

subsection \<open>\<open>compressSize\<close> with rounding\<close>

lemma jle_between:
  "jle (Fin lo) v \<Longrightarrow> jle v (Fin hi) \<Longrightarrow> \<exists>a. v = Fin a \<and> lo \<le> a \<and> a \<le> hi"
  by (cases v) simp_all

lemma binary64_between:
  assumes "binary64 lo = Fin lo" and "binary64 hi = Fin hi" and "lo \<le> v" and "v \<le> hi"
  shows "\<exists>a. binary64 v = Fin a \<and> lo \<le> a \<and> a \<le> hi"
  using binary64_mono [OF assms(3)] binary64_mono [OF assms(4)] assms(1,2)
  by (intro jle_between) simp_all




lemma exponent_range:
  assumes "jle (Fin 1) k"
  shows "\<exists>e. rnd (Fin 1 / k) = Fin e \<and> 0 \<le> e \<and> e \<le> 1"
proof (cases k)
  case (Fin r)
  with assms have r: "1 \<le> r" by simp
  then have "0 \<le> 1 / r" "1 / r \<le> 1" by simp_all
  from binary64_between [OF binary64_0 binary64_1 this] show ?thesis
    using Fin r by simp
next
  case PInf
  then show ?thesis by (simp add: binary64_0)
next
  case NInf
  with assms show ?thesis by simp
next
  case NaN
  with assms show ?thesis by simp
qed

lemma pow_SUN_RADIUS_range:
  assumes "0 \<le> e" and "e \<le> 1"
  shows "\<exists>a. Math_pow_f64 SUN_RADIUS (Fin e) = Fin a \<and> 1 \<le> a \<and> a \<le> 696340"
proof (cases "e = 0")
  case True
  then show ?thesis
    by (simp add: Math_pow_f64_def SUN_RADIUS_def binary64_1)
next
  case False
  with assms have e: "0 < e" by simp
  have lo: "1 \<le> (696340::real) powr e" using assms(1) by (intro ge_one_powr_ge_zero) simp_all
  have "(696340::real) powr e \<le> 696340 powr 1" using assms(2) by (intro powr_mono) simp_all
  then have hi: "(696340::real) powr e \<le> 696340" by simp
  from binary64_between [OF binary64_1 binary64_R lo hi] show ?thesis
    using False by (simp add: Math_pow_f64_def SUN_RADIUS_def)
qed

lemma compressSize_f64_with: "compressSize_f64 k x = compressSize_with Math_pow_f64 k x"
  by (simp add: compressSize_f64_def compressSize_with_def)




lemma compressSize_f64_at_1:
  assumes "0 \<le> x" and "binary64 x = Fin x"
  shows "compressSize_f64 (Fin 1) (Fin x) = rnd (rnd (Fin (x + 696340)) - Fin 696340)"
proof -
  have e: "rnd (Fin 1 / Fin 1) = Fin 1" by (simp add: binary64_1)
  have p: "Math_pow_f64 (Fin x) (Fin 1) = Fin x"
    using assms by (auto simp add: Math_pow_f64_def)
  have q: "Math_pow_f64 SUN_RADIUS (Fin 1) = Fin 696340"
    by (simp add: Math_pow_f64_def SUN_RADIUS_def binary64_R)
  show ?thesis
    unfolding compressSize_f64_def e p q by (simp add: SUN_RADIUS_def)
qed

lemma compressSize_f64_exact:
  assumes "0 \<le> x" and "binary64 x = Fin x" and "binary64 (x + 696340) = Fin (x + 696340)"
  shows "compressSize_f64 (Fin 1) (Fin x) = Fin x"
  using compressSize_f64_at_1 [OF assms(1,2)] assms(2,3)
  by (simp add: minus_jsnum_def)

section \<open>The central body\<close>

text \<open>
  C1, as the claim states it, fails on the Sun's own mesh: its orbit angle is
  \<open>0\<close> before a frame with \<open>timeFactor = 1\<close> and \<^verbatim>\<open>Infinity\<close> after it. The
  statement \<^verbatim>\<open>orbitAngle += 2\<pi> / (orbitalPeriod * 60) * timeFactor\<close> runs for every
  mesh, and for a period of zero the division is \<^verbatim>\<open>2\<pi> / 0\<close>.
\<close>

theorem central_body_angle_counterexample:
  "orbitalPeriod (createPlanet (Fin 1) getSunData) = Fin 0 \<and>
   orbitAngle (createPlanet (Fin 1) getSunData) = Fin 0 \<and>
   orbitAngle (updatePlanet (Fin 1) (createPlanet (Fin 1) getSunData)) = PInf"
  by (simp add: updatePlanet_orbitAngle createPlanet_def getSunData_def two_pi)

text \<open>
  C1 (amended): for a body with \<open>orbitalPeriod = 0\<close>, whatever the time factor and
  the state of the mesh before the frame, the frame leaves its position exactly at
  the origin. The division by zero is evaluated (JavaScript does not raise on it):
  the new orbit angle is the old one plus \<^verbatim>\<open>Infinity * timeFactor\<close>, which is never
  a finite number.
\<close>

theorem central_body_pinned:
  assumes "orbitalPeriod m = Fin 0"
  shows "position_x (updatePlanet tf m) = Fin 0 \<and>
         position_y (updatePlanet tf m) = Fin 0 \<and>
         position_z (updatePlanet tf m) = Fin 0 \<and>
         orbitAngle (updatePlanet tf m) = orbitAngle m + PInf * tf \<and>
         \<not> is_finite (orbitAngle (updatePlanet tf m))"
  using assms
  by (simp add: updatePlanet_def Let_def two_pi_over_zero plus_not_finite PInf_times_not_finite)

theorem central_body_pinned_witness:
  "orbitalPeriod (createPlanet (Fin 1) getSunData) = Fin 0 \<and>
   position_x (createPlanet (Fin 1) getSunData) = Fin 6963400 \<and>
   position_x (updatePlanet (Fin (16 / 1000)) (createPlanet (Fin 1) getSunData)) = Fin 0 \<and>
   position_y (updatePlanet (Fin (16 / 1000)) (createPlanet (Fin 1) getSunData)) = Fin 0 \<and>
   position_z (updatePlanet (Fin (16 / 1000)) (createPlanet (Fin 1) getSunData)) = Fin 0 \<and>
   \<not> is_finite (orbitAngle (updatePlanet (Fin (16 / 1000)) (createPlanet (Fin 1) getSunData)))"
  using central_body_pinned [of "createPlanet (Fin 1) getSunData" "Fin (16 / 1000)"]
  by (simp add: createPlanet_def getSunData_def adjustedDistance_def SUN_RADIUS_def
      DISTANCE_SCALE_def)

section \<open>The clock\<close>

text \<open>
  C2, as the claim states it, fails when the clock goes back by one second at the
  initial speed 1: the time factor is \<open>-1\<close>, not \<open>0\<close>. \<^verbatim>\<open>animate\<close> has no clamp.
\<close>

theorem clock_regression_counterexample:
  "timeFactor 0 \<lparr>compressionAmount = Fin 1, planetMeshes = [], orbitalSpeed = Fin 1,
      lastTime = 1000\<rparr> = Fin (- 1)"
  by (simp add: timeFactor_def deltaTime_def)

text \<open>
  C2 (amended): when the new timestamp is earlier than the previous one, the tick
  returns normally with the negative delta unclamped: in exact arithmetic \<open>deltaTime\<close> is
  \<open>(now - lastTime) / 1000 < 0\<close> and \<open>timeFactor\<close> is that delta times the speed,
  negative for every positive speed; \<open>lastTime\<close> becomes \<open>now\<close>.
\<close>

theorem clock_regression_not_clamped:
  assumes "now < lastTime s" and "orbitalSpeed s = Fin v"
  shows "deltaTime now s = Fin (real_of_int (now - lastTime s) / 1000) \<and>
         real_of_int (now - lastTime s) / 1000 < 0 \<and>
         timeFactor now s = Fin (real_of_int (now - lastTime s) / 1000 * v) \<and>
         (0 < v \<longrightarrow> real_of_int (now - lastTime s) / 1000 * v < 0) \<and>
         lastTime (animate now s) = now"
  using assms
  by (simp add: timeFactor_def deltaTime_def animate_def updatePlanetPositions_def
      mult_less_0_iff)

theorem clock_regression_not_clamped_witness:
  "(500::int) < lastTime \<lparr>compressionAmount = Fin 1, planetMeshes = [],
      orbitalSpeed = Fin 3, lastTime = 2000\<rparr> \<and>
   timeFactor 500 \<lparr>compressionAmount = Fin 1, planetMeshes = [],
      orbitalSpeed = Fin 3, lastTime = 2000\<rparr> = Fin (- 9 / 2) \<and>
   lastTime (animate 500 \<lparr>compressionAmount = Fin 1, planetMeshes = [],
      orbitalSpeed = Fin 3, lastTime = 2000\<rparr>) = 500"
  using clock_regression_not_clamped [of 500 "\<lparr>compressionAmount = Fin 1, planetMeshes = [],
      orbitalSpeed = Fin 3, lastTime = 2000\<rparr>" 3]
  by simp

section \<open>The compression function\<close>

subsection \<open>In exact arithmetic\<close>

lemma compressSize_exact_identity: "0 \<le> x \<Longrightarrow> compressSize (Fin 1) (Fin x) = Fin x"
  by (simp add: compressSize_def SUN_RADIUS_def minus_jsnum_def)




lemma compressSize_exact_fixed_point:
  assumes "jle (Fin 1) k"
  shows "compressSize k SUN_RADIUS = SUN_RADIUS"
proof (cases k)
  case (Fin r)
  with assms have "1 \<le> r" by simp
  then show ?thesis using Fin
    by (simp add: compressSize_def SUN_RADIUS_def minus_jsnum_def)
next
  case PInf
  then show ?thesis by (simp add: compressSize_def SUN_RADIUS_def minus_jsnum_def)
next
  case NInf
  with assms show ?thesis by simp
next
  case NaN
  with assms show ?thesis by simp
qed

subsection \<open>The identity at \<open>k = 1\<close>\<close>

lemma binary64_small: "binary64 (1 / 2 ^ 40) = Fin (1 / 2 ^ 40)"
  by (rule binary64_exact [of "- 40" _ "2 ^ 52"]) (simp_all add: power_int_minus)

lemma binary64_absorbed: "binary64 (1 / 2 ^ 40 + 696340) = Fin 696340"
proof -
  have "ties_even ((1 / 2 ^ 40 + 696340) / 2 powi (19 - 52)) = 5981515053793280"
    by (rule ties_even_near) (simp add: power_int_minus)
  from binary64_normal [OF _ _ _ this] show ?thesis
    by (simp add: power_int_minus)
qed

lemma binary64_6371: "binary64 6371 = Fin 6371"
  by (rule binary64_exact [of 12 _ "6371 * 2 ^ 40"]) (simp_all add: power_int_minus)

lemma binary64_702711: "binary64 (6371 + 696340) = Fin (6371 + 696340)"
  by (rule binary64_exact [of 19 _ "702711 * 2 ^ 33"]) (simp_all add: power_int_minus)

text \<open>
  The double \<open>12742.0168\<close> is \<^verbatim>\<open>7004997816458569 / 2^39\<close>: what \<^verbatim>\<open>createPlanet\<close> computes
  as \<^verbatim>\<open>planetRadius\<close> for a mean radius of \<open>6371.0084\<close>.
\<close>

lemma binary64_earth:
  "binary64 (7004997816458569 / 2 ^ 39) = Fin (7004997816458569 / 2 ^ 39)"
  by (rule binary64_exact [of 13 _ 7004997816458569]) (simp_all add: power_int_minus)

lemma binary64_earth_sum:
  "binary64 (7004997816458569 / 2 ^ 39 + 696340) = Fin (6090968144675445 / 2 ^ 33)"
proof -
  have "ties_even ((7004997816458569 / 2 ^ 39 + 696340) / 2 powi (19 - 52)) = 6090968144675445"
    by (rule ties_even_near) (simp add: power_int_minus)
  from binary64_normal [OF _ _ _ this] show ?thesis
    by (simp add: power_int_minus)
qed

lemma binary64_earth_difference:
  "binary64 (6090968144675445 / 2 ^ 33 - 696340) = Fin (109453090882165 / 2 ^ 33)"
proof -
  have eq: "(6090968144675445 / 2 ^ 33 - 696340 :: real) = 109453090882165 / 2 ^ 33"
    by simp
  have "binary64 (109453090882165 / 2 ^ 33) = Fin (109453090882165 / 2 ^ 33)"
    by (rule binary64_exact [of 13 _ 7004997816458560]) (simp_all add: power_int_minus)
  then show ?thesis unfolding eq .
qed

text \<open>
  C3, as the claim states it, fails in double arithmetic. For the input \<^verbatim>\<open>2^-40\<close>, which
  is a double: at \<open>k = 1\<close> the power returns it, the sum \<^verbatim>\<open>2^-40 + 696340\<close> rounds to
  \<open>696340\<close> (the doubles near \<open>696340\<close> are \<^verbatim>\<open>2^-33\<close> apart), and the difference is
  \<open>0\<close>, not \<^verbatim>\<open>2^-40\<close>. For the input \<open>12742.0168\<close> the result is
  \<^verbatim>\<open>109453090882165 / 2^33\<close>, the double \<open>12742.016799999983\<close>.
\<close>

theorem compressSize_identity_counterexample:
  "binary64 (1 / 2 ^ 40) = Fin (1 / 2 ^ 40) \<and>
   compressSize_f64 (Fin 1) (Fin (1 / 2 ^ 40)) = Fin 0 \<and>
   compressSize_f64 (Fin 1) (Fin (1 / 2 ^ 40)) \<noteq> Fin (1 / 2 ^ 40) \<and>
   binary64 (7004997816458569 / 2 ^ 39) = Fin (7004997816458569 / 2 ^ 39) \<and>
   compressSize_f64 (Fin 1) (Fin (7004997816458569 / 2 ^ 39)) = Fin (109453090882165 / 2 ^ 33) \<and>
   compressSize_f64 (Fin 1) (Fin (7004997816458569 / 2 ^ 39)) \<noteq> Fin (7004997816458569 / 2 ^ 39)"
proof -
  have a: "compressSize_f64 (Fin 1) (Fin (1 / 2 ^ 40)) = Fin 0"
    using compressSize_f64_at_1 [of "1 / 2 ^ 40"] binary64_small binary64_absorbed
    by (simp add: minus_jsnum_def binary64_0)
  have "rnd (rnd (Fin (7004997816458569 / 2 ^ 39 + 696340)) - Fin 696340)
          = Fin (109453090882165 / 2 ^ 33)"
    using binary64_earth_sum binary64_earth_difference by (simp add: minus_jsnum_def)
  then have b: "compressSize_f64 (Fin 1) (Fin (7004997816458569 / 2 ^ 39))
                  = Fin (109453090882165 / 2 ^ 33)"
    using compressSize_f64_at_1 [OF _ binary64_earth] by simp
  have na: "Fin 0 \<noteq> Fin (1 / 2 ^ 40 :: real)" by simp
  have nb: "Fin (109453090882165 / 2 ^ 33) \<noteq> Fin (7004997816458569 / 2 ^ 39 :: real)" by simp
  from binary64_small a na binary64_earth b nb show ?thesis by simp
qed

text \<open>
  C3 (amended): for every input \<open>x \<ge> 0\<close> and \<open>k = 1\<close>, \<^verbatim>\<open>compressSize\<close> returns \<open>x\<close>
  in exact arithmetic. In double arithmetic it returns, for a double \<open>x\<close>, the
  double \<open>rnd (rnd (x + 696340) - 696340)\<close>; that is \<open>x\<close> exactly whenever the sum
  \<open>x + 696340\<close> is itself a double.
\<close>

theorem compressSize_identity:
  assumes "0 \<le> x"
  shows "compressSize (Fin 1) (Fin x) = Fin x \<and>
         (binary64 x = Fin x \<longrightarrow>
            compressSize_f64 (Fin 1) (Fin x) = rnd (rnd (Fin (x + 696340)) - Fin 696340)) \<and>
         (binary64 x = Fin x \<and> binary64 (x + 696340) = Fin (x + 696340) \<longrightarrow>
            compressSize_f64 (Fin 1) (Fin x) = Fin x)"
  using assms compressSize_exact_identity [of x] compressSize_f64_at_1 [of x]
    compressSize_f64_exact [of x]
  by blast

theorem compressSize_identity_witness:
  "(0::real) \<le> 6371 \<and> binary64 6371 = Fin 6371 \<and>
   binary64 (6371 + 696340) = Fin (6371 + 696340) \<and>
   compressSize (Fin 1) (Fin 6371) = Fin 6371 \<and>
   compressSize_f64 (Fin 1) (Fin 6371) = Fin 6371"
proof -
  have h: "(0::real) \<le> 6371" by simp
  note t = compressSize_identity [OF h]
  from t have a: "compressSize (Fin 1) (Fin 6371) = Fin 6371" by (rule conjunct1)
  from t binary64_6371 binary64_702711
  have b: "compressSize_f64 (Fin 1) (Fin 6371) = Fin 6371" by blast
  from h binary64_6371 binary64_702711 a b show ?thesis by blast
qed

subsection \<open>Monotonicity\<close>











subsection \<open>The reference scale as a fixed point\<close>

text \<open>
  The double \<open>1.003921568627451\<close> is \<^verbatim>\<open>282578800148737 / 2^48\<close>; its reciprocal rounds
  to \<open>255 / 256\<close>. The power \<open>696340\<close> to the \<open>255 / 256\<close> is \<open>696340\<close> divided by its
  256th root, which eight square roots enclose between two rationals. The power
  lies within 0.03 units in the last place of the double \<^verbatim>\<open>5675285045694413 / 2^33\<close>
  (\<open>660690.1350541055\<close>), so every implementation of \<^verbatim>\<open>Math.pow\<close> that is accurate
  to less than one unit in the last place returns that double.
\<close>

lemma sqrt_interval:
  assumes "0 \<le> l" and "l * l \<le> L" and "L \<le> x" and "x \<le> U" and "U \<le> u * u" and "0 \<le> u"
  shows "l \<le> sqrt x \<and> sqrt x \<le> u"
proof
  have "l\<^sup>2 \<le> x" using assms(2,3) by (simp add: power2_eq_square)
  then show "l \<le> sqrt x" by (rule real_le_rsqrt)
  have "x \<le> u\<^sup>2" using assms(4,5) by (simp add: power2_eq_square)
  then show "sqrt x \<le> u" using assms(6) by (intro real_le_lsqrt) simp_all
qed

lemma root_256: "(696340::real) powr (1 / 256) =
    sqrt (sqrt (sqrt (sqrt (sqrt (sqrt (sqrt (sqrt 696340)))))))"
  by (simp add: powr_half_sqrt [symmetric] powr_powr)

lemma root_256_bounds:
  "1274157673266170215201762 / 2 ^ 80 \<le> (696340::real) powr (1 / 256) \<and>
   (696340::real) powr (1 / 256) \<le> 1274157673266170215201764 / 2 ^ 80"
proof -
  have b1: "1008812197655738566884100048 / 2 ^ 80 \<le> sqrt 696340 \<and>
            sqrt 696340 \<le> 1008812197655738566884100049 / 2 ^ 80"
    by (rule sqrt_interval [where L = 696340 and U = 696340]) simp_all
  have b2: "34922472891938781423378726 / 2 ^ 80 \<le> sqrt (sqrt 696340) \<and>
            sqrt (sqrt 696340) \<le> 34922472891938781423378727 / 2 ^ 80"
    using b1
    by (intro sqrt_interval [where L = "1008812197655738566884100048 / 2 ^ 80"
          and U = "1008812197655738566884100049 / 2 ^ 80"]) simp_all
  have b3: "6497590258230874357970168 / 2 ^ 80 \<le> sqrt (sqrt (sqrt 696340)) \<and>
            sqrt (sqrt (sqrt 696340)) \<le> 6497590258230874357970169 / 2 ^ 80"
    using b2
    by (intro sqrt_interval [where L = "34922472891938781423378726 / 2 ^ 80"
          and U = "34922472891938781423378727 / 2 ^ 80"]) simp_all
  have b4: "2802695957190467317831549 / 2 ^ 80 \<le> sqrt (sqrt (sqrt (sqrt 696340))) \<and>
            sqrt (sqrt (sqrt (sqrt 696340))) \<le> 2802695957190467317831551 / 2 ^ 80"
    using b3
    by (intro sqrt_interval [where L = "6497590258230874357970168 / 2 ^ 80"
          and U = "6497590258230874357970169 / 2 ^ 80"]) simp_all
  have b5: "1840720377237426397346330 / 2 ^ 80 \<le> sqrt (sqrt (sqrt (sqrt (sqrt 696340)))) \<and>
            sqrt (sqrt (sqrt (sqrt (sqrt 696340)))) \<le> 1840720377237426397346332 / 2 ^ 80"
    using b4
    by (intro sqrt_interval [where L = "2802695957190467317831549 / 2 ^ 80"
          and U = "2802695957190467317831551 / 2 ^ 80"]) simp_all
  have b6: "1491742065751685206927975 / 2 ^ 80
              \<le> sqrt (sqrt (sqrt (sqrt (sqrt (sqrt 696340))))) \<and>
            sqrt (sqrt (sqrt (sqrt (sqrt (sqrt 696340)))))
              \<le> 1491742065751685206927977 / 2 ^ 80"
    using b5
    by (intro sqrt_interval [where L = "1840720377237426397346330 / 2 ^ 80"
          and U = "1840720377237426397346332 / 2 ^ 80"]) simp_all
  have b7: "1342909341501680106680912 / 2 ^ 80
              \<le> sqrt (sqrt (sqrt (sqrt (sqrt (sqrt (sqrt 696340)))))) \<and>
            sqrt (sqrt (sqrt (sqrt (sqrt (sqrt (sqrt 696340))))))
              \<le> 1342909341501680106680914 / 2 ^ 80"
    using b6
    by (intro sqrt_interval [where L = "1491742065751685206927975 / 2 ^ 80"
          and U = "1491742065751685206927977 / 2 ^ 80"]) simp_all
  have b8: "1274157673266170215201762 / 2 ^ 80
              \<le> sqrt (sqrt (sqrt (sqrt (sqrt (sqrt (sqrt (sqrt 696340))))))) \<and>
            sqrt (sqrt (sqrt (sqrt (sqrt (sqrt (sqrt (sqrt 696340)))))))
              \<le> 1274157673266170215201764 / 2 ^ 80"
    using b7
    by (intro sqrt_interval [where L = "1342909341501680106680912 / 2 ^ 80"
          and U = "1342909341501680106680914 / 2 ^ 80"]) simp_all
  show ?thesis unfolding root_256 by (rule b8)
qed

lemma pow_255_256_bounds:
  "5675285045694413 - 1 / 2 < (696340::real) powr (255 / 256) * 2 ^ 33 \<and>
   (696340::real) powr (255 / 256) * 2 ^ 33 < 5675285045694413 + 1 / 2"
proof -
  let ?t = "(696340::real) powr (1 / 256)"
  have t: "1274157673266170215201762 / 2 ^ 80 \<le> ?t" "?t \<le> 1274157673266170215201764 / 2 ^ 80"
    using root_256_bounds by simp_all
  have tpos: "0 < ?t" by simp
  have v: "(696340::real) powr (255 / 256) = 696340 / ?t"
    using powr_diff [of "696340::real" 1 "1 / 256"] by simp
  have lo: "696340 / (1274157673266170215201764 / 2 ^ 80) \<le> 696340 / ?t"
    using t(2) tpos by (intro divide_left_mono) simp_all
  have hi: "696340 / ?t \<le> 696340 / (1274157673266170215201762 / 2 ^ 80)"
    using t(1) tpos by (intro divide_left_mono) simp_all
  have lo': "(5675285045694413 - 1 / 2) / 2 ^ 33
               < (696340::real) / (1274157673266170215201764 / 2 ^ 80)"
    by simp
  have hi': "(696340::real) / (1274157673266170215201762 / 2 ^ 80)
               < (5675285045694413 + 1 / 2) / 2 ^ 33"
    by simp
  define w where "w = 696340 / ?t"
  have "(5675285045694413 - 1 / 2) / 2 ^ 33 < w" using lo lo' unfolding w_def by linarith
  moreover have "w < (5675285045694413 + 1 / 2) / 2 ^ 33" using hi hi' unfolding w_def by linarith
  ultimately have "5675285045694413 - 1 / 2 < w * 2 ^ 33 \<and> w * 2 ^ 33 < 5675285045694413 + 1 / 2"
    by (simp add: field_simps)
  then show ?thesis unfolding v w_def .
qed

lemma binary64_K:
  "binary64 (282578800148737 / 281474976710656) = Fin (282578800148737 / 281474976710656)"
  by (rule binary64_exact [of 0 _ 4521260802379792])
     (simp_all add: power_int_minus)

lemma binary64_inverse_K:
  "binary64 (281474976710656 / 282578800148737) = Fin (255 / 256)"
proof -
  have "ties_even (281474976710656 / 282578800148737 / 2 powi (- 1 - 52)) = 8972014882652160"
    by (rule ties_even_near) (simp add: power_int_minus)
  from binary64_normal [OF _ _ _ this] show ?thesis
    by (simp add: power_int_minus)
qed

lemma binary64_pow_255_256:
  "binary64 (696340 powr (255 / 256)) = Fin (5675285045694413 / 2 ^ 33)"
proof -
  define v where "v = (696340::real) powr (255 / 256)"
  define w where "w = v * 2 ^ 33"
  have b1: "5675285045694413 - 1 / 2 < w" and b2: "w < 5675285045694413 + 1 / 2"
    unfolding w_def v_def using pow_255_256_bounds by simp_all
  have b: "\<bar>w - 5675285045694413\<bar> < 1 / 2" using b1 b2 by linarith
  have "2 ^ 19 * 2 ^ 33 \<le> w" "w < 2 ^ 20 * 2 ^ 33" using b1 b2 by simp_all
  then have "2 ^ 19 \<le> v" "v < 2 ^ 20" unfolding w_def by simp_all
  then have r: "2 powi 19 \<le> \<bar>v\<bar>" "\<bar>v\<bar> < 2 powi (19 + 1)"
    by simp_all
  have "v / 2 powi (19 - 52) = w" by (simp add: w_def power_int_minus)
  then have "ties_even (v / 2 powi (19 - 52)) = 5675285045694413"
    using b by (intro ties_even_near) simp
  from binary64_normal [OF r _ this] show ?thesis
    unfolding v_def by (simp add: power_int_minus)
qed

lemma binary64_sum_tie:
  "binary64 (5675285045694413 / 2 ^ 33 + 696340) = Fin (5828400049743846 / 2 ^ 32)"
proof -
  have "ties_even ((5675285045694413 / 2 ^ 33 + 696340) / 2 powi (20 - 52)) = 5828400049743846"
    by (simp add: ties_even_def Let_def power_int_minus)
  from binary64_normal [OF _ _ _ this] show ?thesis
    by (simp add: power_int_minus)
qed

lemma binary64_just_below_R: "binary64 (696340 - 1 / 2 ^ 33) = Fin (696340 - 1 / 2 ^ 33)"
  by (rule binary64_exact [of 19 _ 5981515053793279])
     (simp_all add: power_int_minus)

lemma binary64_below_R:
  "binary64 (5828400049743846 / 2 ^ 32 - 5675285045694413 / 2 ^ 33) = Fin (696340 - 1 / 2 ^ 33)"
proof -
  have eq: "(5828400049743846 / 2 ^ 32 - 5675285045694413 / 2 ^ 33 :: real) = 696340 - 1 / 2 ^ 33"
    by simp
  show ?thesis unfolding eq by (rule binary64_just_below_R)
qed

lemma binary64_above_R: "binary64 (696340 + 1 / 2 ^ 33) = Fin (696340 + 1 / 2 ^ 33)"
  by (rule binary64_exact [of 19 _ 5981515053793281])
     (simp_all add: power_int_minus)

lemma sum_rounding_error:
  assumes "1 \<le> a" and "a \<le> 696340"
  shows "binary64 (a + 696340) = Fin (nearest (a + 696340)) \<and>
         \<bar>nearest (a + 696340) - (a + 696340)\<bar> \<le> 1 / 2 ^ 33"
proof -
  let ?v = "a + 696340"
  have err: "\<bar>nearest ?v - ?v\<bar> \<le> 1 / 2 ^ 33"
  proof (cases "?v < 2 ^ 20")
    case True
    have "\<bar>nearest ?v - ?v\<bar> \<le> 2 powi (19 - 53)"
      using assms True by (intro nearest_error) simp_all
    also have "\<dots> \<le> 1 / 2 ^ 33" by (simp add: power_int_minus field_simps)
    finally show ?thesis .
  next
    case False
    have "\<bar>nearest ?v - ?v\<bar> \<le> 2 powi (20 - 53)"
      using assms False by (intro nearest_error) simp_all
    also have "\<dots> \<le> 1 / 2 ^ 33" by (simp add: power_int_minus field_simps)
    finally show ?thesis .
  qed
  moreover have "(1::real) / 2 ^ 33 \<le> 1" "(1392681::real) \<le> 2 ^ 64" by simp_all
  ultimately have "\<bar>nearest ?v\<bar> \<le> 2 ^ 64" using assms by linarith
  then have "\<bar>nearest ?v\<bar> < overflow_threshold" by (rule below_threshold)
  then show ?thesis using err by (simp add: binary64_alt)
qed

lemma fixed_point_error:
  assumes "1 \<le> a" and "a \<le> 696340"
  shows "\<exists>r. rnd (rnd (Fin a + SUN_RADIUS) - Fin a) = Fin r \<and> \<bar>r - 696340\<bar> \<le> 1 / 2 ^ 33"
proof -
  let ?s = "nearest (a + 696340)"
  from sum_rounding_error [OF assms]
  have s: "binary64 (a + 696340) = Fin ?s" and err: "\<bar>?s - (a + 696340)\<bar> \<le> 1 / 2 ^ 33"
    by simp_all
  from err have "696340 - 1 / 2 ^ 33 \<le> ?s - a" "?s - a \<le> 696340 + 1 / 2 ^ 33"
    by linarith+
  from binary64_between [OF binary64_just_below_R binary64_above_R this]
  obtain r where r: "binary64 (?s - a) = Fin r" "696340 - 1 / 2 ^ 33 \<le> r"
      "r \<le> 696340 + 1 / 2 ^ 33"
    by blast
  have "rnd (rnd (Fin a + SUN_RADIUS) - Fin a) = Fin r"
    using s r(1) by (simp add: SUN_RADIUS_def minus_jsnum_def)
  moreover have "\<bar>r - 696340\<bar> \<le> 1 / 2 ^ 33" using r(2,3) by linarith
  ultimately show ?thesis by blast
qed

lemma compressSize_f64_fixed_point:
  assumes "jle (Fin 1) k"
  shows "\<exists>r. compressSize_f64 k SUN_RADIUS = Fin r \<and> \<bar>r - 696340\<bar> \<le> 1 / 2 ^ 33"
proof -
  from exponent_range [OF assms] obtain e
    where e: "rnd (Fin 1 / k) = Fin e" "0 \<le> e" "e \<le> 1" by blast
  from pow_SUN_RADIUS_range [OF e(2,3)] obtain a
    where a: "Math_pow_f64 SUN_RADIUS (Fin e) = Fin a" "1 \<le> a" "a \<le> 696340" by blast
  from fixed_point_error [OF a(2,3)] show ?thesis
    by (simp add: compressSize_f64_def e(1) a(1))
qed

text \<open>
  C10, as the claim states it, fails in double arithmetic for \<open>k = 1.003921568627451\<close>:
  the power is the double \<open>660690.1350541055\<close>, an odd multiple of \<^verbatim>\<open>2^-33\<close>; its sum
  with \<open>696340\<close> lies halfway between two doubles and rounds to the even one, and
  the difference is \<^verbatim>\<open>696340 - 2^-33\<close> (\<open>696339.9999999999\<close>), not \<open>696340\<close>.
\<close>

theorem reference_fixed_point_counterexample:
  "jle (Fin 1) (Fin (282578800148737 / 281474976710656)) \<and>
   binary64 (282578800148737 / 281474976710656) = Fin (282578800148737 / 281474976710656) \<and>
   compressSize_f64 (Fin (282578800148737 / 281474976710656)) SUN_RADIUS
     = Fin (696340 - 1 / 2 ^ 33) \<and>
   compressSize_f64 (Fin (282578800148737 / 281474976710656)) SUN_RADIUS \<noteq> SUN_RADIUS"
proof -
  have e: "rnd (Fin 1 / Fin (282578800148737 / 281474976710656)) = Fin (255 / 256)"
    using binary64_inverse_K by simp
  have p: "Math_pow_f64 SUN_RADIUS (Fin (255 / 256)) = Fin (5675285045694413 / 2 ^ 33)"
    using binary64_pow_255_256 by (simp add: Math_pow_f64_def SUN_RADIUS_def)
  have s: "rnd (Fin (5675285045694413 / 2 ^ 33) + SUN_RADIUS) = Fin (5828400049743846 / 2 ^ 32)"
    using binary64_sum_tie by (simp add: SUN_RADIUS_def)
  have d: "rnd (Fin (5828400049743846 / 2 ^ 32) - Fin (5675285045694413 / 2 ^ 33))
             = Fin (696340 - 1 / 2 ^ 33)"
    using binary64_below_R by (simp add: minus_jsnum_def)
  have c: "compressSize_f64 (Fin (282578800148737 / 281474976710656)) SUN_RADIUS
             = Fin (696340 - 1 / 2 ^ 33)"
    unfolding compressSize_f64_def e p s d ..
  have "Fin (696340 - 1 / 2 ^ 33) \<noteq> SUN_RADIUS" by (simp add: SUN_RADIUS_def)
  then have n: "compressSize_f64 (Fin (282578800148737 / 281474976710656)) SUN_RADIUS
                  \<noteq> SUN_RADIUS"
    unfolding c .
  have j: "jle (Fin 1) (Fin (282578800148737 / 281474976710656))" by simp
  from j binary64_K c n show ?thesis by blast
qed

text \<open>
  C10 (amended): for every compression parameter \<open>k \<ge> 1\<close> (\<^verbatim>\<open>Infinity\<close> included),
  the reference scale is a fixed point of \<^verbatim>\<open>compressSize\<close> in exact arithmetic. In
  double arithmetic the result is a double at most \<^verbatim>\<open>2^-33\<close> away from \<open>696340\<close>: the
  reference scale itself or one of its two neighbours among the doubles.
\<close>

theorem reference_fixed_point:
  assumes "jle (Fin 1) k"
  shows "compressSize k SUN_RADIUS = SUN_RADIUS \<and>
         (\<exists>r. compressSize_f64 k SUN_RADIUS = Fin r \<and> \<bar>r - 696340\<bar> \<le> 1 / 2 ^ 33)"
  using compressSize_exact_fixed_point [OF assms] compressSize_f64_fixed_point [OF assms]
  by simp

theorem reference_fixed_point_witness:
  "jle (Fin 1) (Fin 5) \<and> compressSize (Fin 5) SUN_RADIUS = SUN_RADIUS \<and>
   (\<exists>r. compressSize_f64 (Fin 5) SUN_RADIUS = Fin r \<and> \<bar>r - 696340\<bar> \<le> 1 / 2 ^ 33)"
  using reference_fixed_point [of "Fin 5"] by simp

section \<open>Rotation\<close>

text \<open>
  C5: the frame update has no test on the rotation period. For a body created from
  data whose rotation period is \<^verbatim>\<open>undefined\<close>, \<^verbatim>\<open>null\<close> or \<open>0\<close>, one frame with
  \<open>timeFactor = 1\<close> takes the rotation angle from \<open>0\<close> to \<^verbatim>\<open>NaN\<close>, \<^verbatim>\<open>Infinity\<close>
  and \<^verbatim>\<open>Infinity\<close>: the angle does not stay fixed.
\<close>

theorem rotation_unknown_evaluates:
  "rotationAngle (updatePlanet (Fin 1)
      (createPlanet (Fin 1) \<lparr>name = ''pluto'', distance = Fin 5906380000, radius = Fin 1188,
         orbitalPeriod = Fin 90560, rotationPeriod = Undefined\<rparr>)) = NaN \<and>
   rotationAngle (updatePlanet (Fin 1)
      (createPlanet (Fin 1) \<lparr>name = ''pluto'', distance = Fin 5906380000, radius = Fin 1188,
         orbitalPeriod = Fin 90560, rotationPeriod = Null\<rparr>)) = PInf \<and>
   rotationAngle (updatePlanet (Fin 1)
      (createPlanet (Fin 1) \<lparr>name = ''pluto'', distance = Fin 5906380000, radius = Fin 1188,
         orbitalPeriod = Fin 90560, rotationPeriod = Number (Fin 0)\<rparr>)) = PInf \<and>
   rotation_y (updatePlanet (Fin 1)
      (createPlanet (Fin 1) \<lparr>name = ''pluto'', distance = Fin 5906380000, radius = Fin 1188,
         orbitalPeriod = Fin 90560, rotationPeriod = Undefined\<rparr>)) = NaN"
  by (simp add: updatePlanet_def Let_def createPlanet_def two_pi)

section \<open>One full orbital period\<close>

text \<open>
  C6: a body with a finite nonzero orbital period \<open>P\<close> and a finite orbit angle is
  advanced by frames whose time factors add up to \<open>P * 60\<close>. Its orbit angle has
  then grown by \<open>2\<pi>\<close>, and its position is the position of the angle it started
  from: \<open>(cos a * distance, y, sin a * distance)\<close>. Arithmetic is exact here, which is
  the claim's "modulo numerical tolerance".
\<close>

theorem full_period_returns:
  assumes P: "orbitalPeriod m = Fin P" "P \<noteq> 0"
    and a: "orbitAngle m = Fin a"
    and total: "sum_list ts = P * 60"
  shows "orbitAngle (frames (map Fin ts) m) = Fin (a + 2 * pi) \<and>
         position_x (frames (map Fin ts) m) = Math_cos (orbitAngle m) * distance m \<and>
         position_y (frames (map Fin ts) m) = position_y m \<and>
         position_z (frames (map Fin ts) m) = Math_sin (orbitAngle m) * distance m"
proof -
  have ang: "orbitAngle (frames (map Fin ts) m) = Fin (a + 2 * pi)"
    using frames_orbitAngle [OF P a, of ts] total P(2) by simp
  have "ts \<noteq> []" using total P(2) by auto
  then have ne: "map Fin ts \<noteq> []" by simp
  have "orbitalPeriod m \<noteq> Fin 0" using P by simp
  from frames_position [OF this ne] ang a show ?thesis
    by simp
qed

theorem full_period_returns_witness:
  "orbitalPeriod (createPlanet (Fin 1) \<lparr>name = ''earth'', distance = Fin 149598023,
       radius = Fin 6371, orbitalPeriod = Fin (36525 / 100),
       rotationPeriod = Number (Fin 24)\<rparr>) = Fin (36525 / 100) \<and>
   sum_list [10000, 11915] = (36525 / 100 :: real) * 60 \<and>
   orbitAngle (frames [Fin 10000, Fin 11915]
     (createPlanet (Fin 1) \<lparr>name = ''earth'', distance = Fin 149598023,
       radius = Fin 6371, orbitalPeriod = Fin (36525 / 100),
       rotationPeriod = Number (Fin 24)\<rparr>)) = Fin (2 * pi) \<and>
   position_x (frames [Fin 10000, Fin 11915]
     (createPlanet (Fin 1) \<lparr>name = ''earth'', distance = Fin 149598023,
       radius = Fin 6371, orbitalPeriod = Fin (36525 / 100),
       rotationPeriod = Number (Fin 24)\<rparr>)) = Fin (845938023 / 100) \<and>
   position_z (frames [Fin 10000, Fin 11915]
     (createPlanet (Fin 1) \<lparr>name = ''earth'', distance = Fin 149598023,
       radius = Fin 6371, orbitalPeriod = Fin (36525 / 100),
       rotationPeriod = Number (Fin 24)\<rparr>)) = Fin 0"
proof -
  let ?E = "createPlanet (Fin 1) \<lparr>name = ''earth'', distance = Fin 149598023,
       radius = Fin 6371, orbitalPeriod = Fin (36525 / 100),
       rotationPeriod = Number (Fin 24)\<rparr>"
  have P: "orbitalPeriod ?E = Fin (36525 / 100)" "(36525 / 100 :: real) \<noteq> 0"
    by (simp_all add: createPlanet_def)
  have a: "orbitAngle ?E = Fin 0" by (simp add: createPlanet_def)
  have total: "sum_list [10000, 11915] = (36525 / 100 :: real) * 60" by simp
  have d: "distance ?E = Fin (845938023 / 100)"
    by (simp add: createPlanet_def adjustedDistance_def SUN_RADIUS_def DISTANCE_SCALE_def)
  from full_period_returns [OF P a total] a d P(1) total show ?thesis
    by simp
qed

section \<open>The compression slider and the display distance\<close>

text \<open>
  C7, as the claim states it, fails for the input \<open>0.5\<close>: the stored compression
  parameter is \<open>0.5\<close>, which is not \<open>\<ge> 1\<close>.
\<close>

theorem compression_clamp_counterexample:
  "compressionAmount (updateCompressionAmount (Fin (1 / 2))
      \<lparr>compressionAmount = Fin 1, planetMeshes = [], orbitalSpeed = Fin 1, lastTime = 0\<rparr>)
     = Fin (1 / 2) \<and> \<not> jle (Fin 1) (Fin (1 / 2))"
  by (simp add: updateCompressionAmount_def Let_def)

text \<open>
  C7 (amended): for every input value, also one below 1, \<^verbatim>\<open>NaN\<close> or infinite, the
  handler returns normally and stores the parsed value itself as the compression
  parameter; nothing is clamped. Every mesh is rescaled with that value.
\<close>

theorem compression_stored_unclamped:
  "compressionAmount (updateCompressionAmount v s) = v \<and>
   planetMeshes (updateCompressionAmount v s) = map (rescale v) (planetMeshes s)"
  by (simp add: updateCompressionAmount_def Let_def)

text \<open>
  C8, as the claim states it, fails for an Earth-like body at \<open>k = 2\<close>: the display
  distance \<^verbatim>\<open>createPlanet\<close> stores is \<open>8459380.23\<close>, which is neither the compression
  of the scaled distance nor the compression of the raw distance.
\<close>

theorem distance_compression_counterexample:
  "distance (createPlanet (Fin 2) \<lparr>name = ''earth'', distance = Fin 149598023,
       radius = Fin 6371, orbitalPeriod = Fin (365256 / 1000),
       rotationPeriod = Number (Fin (239345 / 10000))\<rparr>) = Fin (845938023 / 100) \<and>
   distance (createPlanet (Fin 2) \<lparr>name = ''earth'', distance = Fin 149598023,
       radius = Fin 6371, orbitalPeriod = Fin (365256 / 1000),
       rotationPeriod = Number (Fin (239345 / 10000))\<rparr>) \<noteq>
     compressSize (Fin 2) (Fin (845938023 / 100)) \<and>
   distance (createPlanet (Fin 2) \<lparr>name = ''earth'', distance = Fin 149598023,
       radius = Fin 6371, orbitalPeriod = Fin (365256 / 1000),
       rotationPeriod = Number (Fin (239345 / 10000))\<rparr>) \<noteq>
     compressSize (Fin 2) (Fin 149598023)"
proof -
  have a: "(845938023 / 100 :: real) powr (1 / 2) < 3000"
    by (rule sqrt_bound) simp_all
  have b: "(149598023 :: real) powr (1 / 2) < 13000"
    by (rule sqrt_bound) simp_all
  have c: "0 \<le> (696340 :: real) powr (1 / 2)" by simp
  have 1: "(845938023 / 100 :: real) powr (1 / 2) + 696340 - 696340 powr (1 / 2)
             \<noteq> 845938023 / 100"
    using a c by linarith
  have 2: "(149598023 :: real) powr (1 / 2) + 696340 - 696340 powr (1 / 2)
             \<noteq> 845938023 / 100"
    using b c by linarith
  show ?thesis using 1 2
    by (simp add: createPlanet_def adjustedDistance_def compressSize_def SUN_RADIUS_def
        DISTANCE_SCALE_def minus_jsnum_def)
qed

text \<open>
  C8 (amended): \<^verbatim>\<open>createPlanet\<close> applies the compression function, with the Sun's
  radius as reference scale, to the body's radius only: the sphere's radius is
  \<open>compressSize (radius * 0.5 * PLANET_SCALE)\<close>. The display distance is the linear
  value \<open>(distance / 1000 + SUN_RADIUS) * DISTANCE_SCALE\<close>, the same for every
  compression parameter.
\<close>

theorem radius_only_compressed:
  "geometry_radius (createPlanet k p) = compressSize k (radius p * Fin (1 / 2) * PLANET_SCALE) \<and>
   distance (createPlanet k p) = (distance p / Fin 1000 + SUN_RADIUS) * DISTANCE_SCALE \<and>
   position_x (createPlanet k p) = (distance p / Fin 1000 + SUN_RADIUS) * DISTANCE_SCALE \<and>
   distance (createPlanet k p) = distance (createPlanet k' p) \<and>
   position_x (createPlanet k p) = position_x (createPlanet k' p)"
  by (simp add: createPlanet_def planetRadius_def adjustedDistance_def)

section \<open>Speed zero\<close>

text \<open>
  C9, as the claim states it, fails for the Sun: in a frame at speed 0, 16 ms after
  the last one, its orbit angle goes from \<open>0\<close> to \<^verbatim>\<open>NaN\<close>
  (\<^verbatim>\<open>2\<pi> / 0 * 0 = Infinity * 0\<close>).
\<close>

theorem frozen_speed_counterexample:
  "orbitAngle (createPlanet (Fin 1) getSunData) = Fin 0 \<and>
   map orbitAngle (planetMeshes (animate 16
      \<lparr>compressionAmount = Fin 1, planetMeshes = [createPlanet (Fin 1) getSunData],
       orbitalSpeed = Fin 0, lastTime = 0\<rparr>)) = [NaN]"
  by (simp add: animate_def updatePlanetPositions_def timeFactor_def deltaTime_def
      updatePlanet_orbitAngle createPlanet_def getSunData_def two_pi)

text \<open>
  C9 (amended): in exact arithmetic, in every frame executed while the speed is 0,
  whatever the elapsed time, \<open>timeFactor\<close> is 0 and every mesh is updated with it; the
  orbit angle of
  every body whose orbital period is neither 0 nor \<^verbatim>\<open>NaN\<close> is unchanged, and the
  rotation angle of every body whose rotation period converts to a number that is
  neither 0 nor \<^verbatim>\<open>NaN\<close> is unchanged.
\<close>

theorem frozen_speed:
  assumes "orbitalSpeed s = Fin 0"
  shows "timeFactor now s = Fin 0 \<and>
         length (planetMeshes (animate now s)) = length (planetMeshes s) \<and>
         (\<forall>i < length (planetMeshes s).
            orbitalPeriod (planetMeshes s ! i) \<noteq> Fin 0 \<and>
            orbitalPeriod (planetMeshes s ! i) \<noteq> NaN \<longrightarrow>
              orbitAngle (planetMeshes (animate now s) ! i) = orbitAngle (planetMeshes s ! i)) \<and>
         (\<forall>i < length (planetMeshes s).
            ToNumber (rotationPeriod (planetMeshes s ! i)) \<noteq> Fin 0 \<and>
            ToNumber (rotationPeriod (planetMeshes s ! i)) \<noteq> NaN \<longrightarrow>
              rotationAngle (planetMeshes (animate now s) ! i) =
                rotationAngle (planetMeshes s ! i))"
proof -
  have tf: "timeFactor now s = Fin 0"
    using assms by (simp add: timeFactor_def deltaTime_def)
  then have "planetMeshes (animate now s) = map (updatePlanet (Fin 0)) (planetMeshes s)"
    using assms by (simp add: animate_def updatePlanetPositions_def timeFactor_def deltaTime_def)
  with tf show ?thesis
    by (simp add: updatePlanet_orbitAngle updatePlanet_rotationAngle zero_increment plus_Fin_0)
qed

theorem frozen_speed_witness:
  "orbitalSpeed \<lparr>compressionAmount = Fin 1,
      planetMeshes = [createPlanet (Fin 1) getSunData,
        (createPlanet (Fin 1) \<lparr>name = ''earth'', distance = Fin 149598023,
           radius = Fin 6371, orbitalPeriod = Fin (36525 / 100),
           rotationPeriod = Number (Fin 24)\<rparr>)\<lparr>orbitAngle := Fin 3, rotationAngle := Fin 7\<rparr>],
      orbitalSpeed = Fin 0, lastTime = 0\<rparr> = Fin 0 \<and>
   timeFactor 5000 \<lparr>compressionAmount = Fin 1,
      planetMeshes = [createPlanet (Fin 1) getSunData,
        (createPlanet (Fin 1) \<lparr>name = ''earth'', distance = Fin 149598023,
           radius = Fin 6371, orbitalPeriod = Fin (36525 / 100),
           rotationPeriod = Number (Fin 24)\<rparr>)\<lparr>orbitAngle := Fin 3, rotationAngle := Fin 7\<rparr>],
      orbitalSpeed = Fin 0, lastTime = 0\<rparr> = Fin 0 \<and>
   orbitAngle (planetMeshes (animate 5000 \<lparr>compressionAmount = Fin 1,
      planetMeshes = [createPlanet (Fin 1) getSunData,
        (createPlanet (Fin 1) \<lparr>name = ''earth'', distance = Fin 149598023,
           radius = Fin 6371, orbitalPeriod = Fin (36525 / 100),
           rotationPeriod = Number (Fin 24)\<rparr>)\<lparr>orbitAngle := Fin 3, rotationAngle := Fin 7\<rparr>],
      orbitalSpeed = Fin 0, lastTime = 0\<rparr>) ! 1) = Fin 3 \<and>
   rotationAngle (planetMeshes (animate 5000 \<lparr>compressionAmount = Fin 1,
      planetMeshes = [createPlanet (Fin 1) getSunData,
        (createPlanet (Fin 1) \<lparr>name = ''earth'', distance = Fin 149598023,
           radius = Fin 6371, orbitalPeriod = Fin (36525 / 100),
           rotationPeriod = Number (Fin 24)\<rparr>)\<lparr>orbitAngle := Fin 3, rotationAngle := Fin 7\<rparr>],
      orbitalSpeed = Fin 0, lastTime = 0\<rparr>) ! 1) = Fin 7 \<and>
   rotationAngle (planetMeshes (animate 5000 \<lparr>compressionAmount = Fin 1,
      planetMeshes = [createPlanet (Fin 1) getSunData,
        (createPlanet (Fin 1) \<lparr>name = ''earth'', distance = Fin 149598023,
           radius = Fin 6371, orbitalPeriod = Fin (36525 / 100),
           rotationPeriod = Number (Fin 24)\<rparr>)\<lparr>orbitAngle := Fin 3, rotationAngle := Fin 7\<rparr>],
      orbitalSpeed = Fin 0, lastTime = 0\<rparr>) ! 0) = Fin 0"
proof -
  let ?s = "\<lparr>compressionAmount = Fin 1,
      planetMeshes = [createPlanet (Fin 1) getSunData,
        (createPlanet (Fin 1) \<lparr>name = ''earth'', distance = Fin 149598023,
           radius = Fin 6371, orbitalPeriod = Fin (36525 / 100),
           rotationPeriod = Number (Fin 24)\<rparr>)\<lparr>orbitAngle := Fin 3, rotationAngle := Fin 7\<rparr>],
      orbitalSpeed = Fin 0, lastTime = 0\<rparr>"
  have speed: "orbitalSpeed ?s = Fin 0" by simp
  have len: "length (planetMeshes ?s) = 2" by simp
  have sun: "planetMeshes ?s ! 0 = createPlanet (Fin 1) getSunData" by simp
  have earth: "planetMeshes ?s ! 1 =
      (createPlanet (Fin 1) \<lparr>name = ''earth'', distance = Fin 149598023,
           radius = Fin 6371, orbitalPeriod = Fin (36525 / 100),
           rotationPeriod = Number (Fin 24)\<rparr>)\<lparr>orbitAngle := Fin 3, rotationAngle := Fin 7\<rparr>"
    by simp
  note fs = frozen_speed [OF speed, of 5000]
  from fs have tf: "timeFactor 5000 ?s = Fin 0" by (rule conjunct1)
  from fs have orb: "\<forall>i < length (planetMeshes ?s).
            orbitalPeriod (planetMeshes ?s ! i) \<noteq> Fin 0 \<and>
            orbitalPeriod (planetMeshes ?s ! i) \<noteq> NaN \<longrightarrow>
              orbitAngle (planetMeshes (animate 5000 ?s) ! i) = orbitAngle (planetMeshes ?s ! i)"
    by blast
  from fs have rot: "\<forall>i < length (planetMeshes ?s).
            ToNumber (rotationPeriod (planetMeshes ?s ! i)) \<noteq> Fin 0 \<and>
            ToNumber (rotationPeriod (planetMeshes ?s ! i)) \<noteq> NaN \<longrightarrow>
              rotationAngle (planetMeshes (animate 5000 ?s) ! i) =
                rotationAngle (planetMeshes ?s ! i)"
    by blast
  have o1: "orbitAngle (planetMeshes (animate 5000 ?s) ! 1) = Fin 3"
    using orb [rule_format, of 1] by (simp add: createPlanet_def)
  have r1: "rotationAngle (planetMeshes (animate 5000 ?s) ! 1) = Fin 7"
    using rot [rule_format, of 1] by (simp add: createPlanet_def)
  have r0: "rotationAngle (planetMeshes (animate 5000 ?s) ! 0) = Fin 0"
    using rot [rule_format, of 0] by (simp add: createPlanet_def getSunData_def)
  from speed tf o1 r1 r0 show ?thesis by blast
qed

end
